theory Spec2Isabelle
  imports Main "HOL-Library.Word"
begin

section \<open>Python values handled by the service\<close>

text \<open>
  A \<^verbatim>\<open>neo4j.time.DateTime\<close> is kept by its fields; the service never looks inside
  one, it only hands it to \<^verbatim>\<open>to_native().isoformat()\<close>.
\<close>

record datetime =
  dt_year :: int
  dt_month :: int
  dt_day :: int
  dt_hour :: int
  dt_minute :: int
  dt_second :: int
  dt_nanosecond :: int
  dt_utc_offset :: "int option"

text \<open>
  The values that occur as properties, query parameters and response bodies. Only
  \<open>DateTime\<close> is an instance of \<^verbatim>\<open>neo4j.time.DateTime\<close>; \<open>Date\<close> and \<open>Duration\<close> are the
  driver's other temporal classes (year, month, day; months, days, seconds, nanoseconds).
  A Python \<^verbatim>\<open>dict\<close> is the list of its items in insertion order.
\<close>

datatype pyvalue =
    is_DateTime: DateTime datetime
  | NoneVal
  | BoolVal bool
  | IntVal int
  | FloatVal "64 word"
  | StrVal string
  | Date int int int
  | Duration int int int int
  | ListVal "pyvalue list"
  | DictVal "(string \<times> pyvalue) list"

type_synonym 'v dict = "(string \<times> 'v) list"

section \<open>Property converter (neo4j\_connection.py)\<close>

text \<open>
  \<^verbatim>\<open>value.to_native().isoformat()\<close> belongs to the driver and the standard library; it is
  the parameter \<open>isoformat\<close> of the model.
\<close>

definition convert_neo4j_to_python :: "(datetime \<Rightarrow> string) \<Rightarrow> pyvalue \<Rightarrow> pyvalue" where
  "convert_neo4j_to_python isoformat v =
     (case v of DateTime d \<Rightarrow> StrVal (isoformat d) | _ \<Rightarrow> v)"

definition convert_properties :: "(datetime \<Rightarrow> string) \<Rightarrow> pyvalue dict \<Rightarrow> pyvalue dict" where
  "convert_properties isoformat props =
     map (\<lambda>(k, v). (k, convert_neo4j_to_python isoformat v)) props"

section \<open>Graph entities as the driver returns them\<close>

record node =
  node_id :: int
  node_labels :: "string list"
  node_props :: "pyvalue dict"

record relationship =
  relationship_id :: int
  relationship_type :: string
  start_node :: node
  end_node :: node
  relationship_props :: "pyvalue dict"

text \<open>
  \<^verbatim>\<open>neo4j.graph.Entity\<close>, the base class of \<^verbatim>\<open>Node\<close> and \<^verbatim>\<open>Relationship\<close>, is a
  \<^verbatim>\<open>Mapping\<close> over the entity's properties: it defines \<^verbatim>\<open>__len__\<close> as the number of
  properties and no \<^verbatim>\<open>__bool__\<close>. Python's truth test of an entity (\<^verbatim>\<open>if record["n"]\<close>)
  therefore is \<^verbatim>\<open>len(entity) != 0\<close>.
\<close>

definition entity_bool :: "pyvalue dict \<Rightarrow> bool" where
  "entity_bool props = (props \<noteq> [])"

section \<open>Exceptions, sessions and the store\<close>

datatype exn =
    HTTPException nat string
  | ServiceUnavailable string
  | Neo4jError string
  | TypeError string
  | IndexError string
  | KeyError string

text \<open>
  A session records the queries sent through it and whether it has been closed. The store
  itself is outside the repository: its reply to a query text and its parameters is the
  function \<open>answer\<close>, an exception of the driver or the rows of the result.
\<close>

type_synonym params = "pyvalue dict"

record session =
  issued :: "(string \<times> params) list"
  closed :: bool

definition new_session :: session where
  "new_session = \<lparr>issued = [], closed = False\<rparr>"

definition session_close :: "session \<Rightarrow> session" where
  "session_close s = s\<lparr>closed := True\<rparr>"

definition run :: "(string \<Rightarrow> params \<Rightarrow> exn + 'r list) \<Rightarrow> string \<Rightarrow> params \<Rightarrow> session
    \<Rightarrow> (exn + 'r list) \<times> session" where
  "run answer query ps s = (answer query ps, s\<lparr>issued := issued s @ [(query, ps)]\<rparr>)"

text \<open>\<^verbatim>\<open>Result.single()\<close>: the first record, or \<^verbatim>\<open>None\<close> when there is none.\<close>

definition single :: "'r list \<Rightarrow> 'r option" where
  "single rows = (case rows of [] \<Rightarrow> None | x # _ \<Rightarrow> Some x)"

text \<open>
  \<^verbatim>\<open>Neo4jConnection.session\<close>: the generator opens a session, yields it to the block and
  closes it in its \<^verbatim>\<open>finally\<close>; the block's result or exception is passed on.
\<close>

definition session_scope :: "(session \<Rightarrow> (exn + 'a) \<times> session) \<Rightarrow> (exn + 'a) \<times> session" where
  "session_scope body = (case body new_session of (res, s) \<Rightarrow> (res, session_close s))"

text \<open>
  \<^verbatim>\<open>except Exception as e: raise HTTPException(status_code=500, detail=prefix + str(e))\<close>.
  \<^verbatim>\<open>HTTPException\<close> is itself an \<^verbatim>\<open>Exception\<close>, so the handler also catches one raised
  inside the \<^verbatim>\<open>try\<close>. What \<^verbatim>\<open>str(e)\<close> prints is the parameter \<open>str_exn\<close>.
\<close>

definition except_Exception :: "(exn \<Rightarrow> string) \<Rightarrow> string \<Rightarrow> (exn + 'a) \<times> session
    \<Rightarrow> (exn + 'a) \<times> session" where
  "except_Exception str_exn prefix r =
     (case r of (Inl e, s) \<Rightarrow> (Inl (HTTPException 500 (prefix @ str_exn e)), s)
              | (Inr v, s) \<Rightarrow> (Inr v, s))"

text \<open>The status the HTTP layer answers with.\<close>

definition http_status :: "exn + 'a \<Rightarrow> nat" where
  "http_status r = (case r of Inr _ \<Rightarrow> 200 | Inl (HTTPException code _) \<Rightarrow> code | Inl _ \<Rightarrow> 500)"

text \<open>Python's \<^verbatim>\<open>str\<close> of an integer.\<close>

fun str_nat :: "nat \<Rightarrow> string" where
  "str_nat n = (if n < 10 then [char_of (48 + n)] else str_nat (n div 10) @ [char_of (48 + n mod 10)])"

definition str_int :: "int \<Rightarrow> string" where
  "str_int i = (if i < 0 then CHR ''-'' # str_nat (nat (- i)) else str_nat (nat i))"

declare str_nat.simps [simp del]

section \<open>Neo4jConnection (neo4j\_connection.py)\<close>

text \<open>The response dictionary built for a node and for a relationship of the graph slice.\<close>

definition node_dict :: "(datetime \<Rightarrow> string) \<Rightarrow> node \<Rightarrow> pyvalue" where
  "node_dict isoformat nd = DictVal
     [(''id'', IntVal (node_id nd)),
      (''labels'', ListVal (map StrVal (node_labels nd))),
      (''properties'', DictVal (convert_properties isoformat (node_props nd)))]"

definition get_node_by_id_query :: string where
  "get_node_by_id_query = ''MATCH (n) WHERE id(n) = $id RETURN n''"

definition get_node_by_id :: "(datetime \<Rightarrow> string) \<Rightarrow> (string \<Rightarrow> params \<Rightarrow> exn + node list)
    \<Rightarrow> int \<Rightarrow> (exn + pyvalue option) \<times> session" where
  "get_node_by_id isoformat answer nid = session_scope (\<lambda>s.
     case run answer get_node_by_id_query [(''id'', IntVal nid)] s of
       (Inl e, s') \<Rightarrow> (Inl e, s')
     | (Inr rows, s') \<Rightarrow>
         (case single rows of
            None \<Rightarrow> (Inr None, s')
          | Some nd \<Rightarrow> (Inr (Some (node_dict isoformat nd)), s')))"

definition create_relationship_query :: "string \<Rightarrow> string" where
  "create_relationship_query rel_type =
     ''\<newline>                MATCH (a), (b) '' @
     ''\<newline>                WHERE id(a) = $from_id AND id(b) = $to_id'' @
     ''\<newline>                CREATE (a)-[r:`'' @ rel_type @ ''`]->(b)'' @
     ''\<newline>                SET r = $props'' @
     ''\<newline>                RETURN r'' @
     ''\<newline>                ''"

definition created_relationship_dict :: "relationship \<Rightarrow> pyvalue" where
  "created_relationship_dict rel = DictVal
     [(''id'', IntVal (relationship_id rel)),
      (''type'', StrVal (relationship_type rel)),
      (''start_node'', IntVal (node_id (start_node rel))),
      (''end_node'', IntVal (node_id (end_node rel))),
      (''properties'', DictVal (relationship_props rel))]"

definition create_relationship :: "(string \<Rightarrow> params \<Rightarrow> exn + relationship list)
    \<Rightarrow> int \<Rightarrow> int \<Rightarrow> string \<Rightarrow> pyvalue dict option \<Rightarrow> (exn + pyvalue option) \<times> session" where
  "create_relationship answer from_id to_id rel_type properties =
     (let props = (case properties of None \<Rightarrow> [] | Some p \<Rightarrow> p) in
      session_scope (\<lambda>s.
        case run answer (create_relationship_query rel_type)
               [(''from_id'', IntVal from_id), (''to_id'', IntVal to_id), (''props'', DictVal props)] s of
          (Inl e, s') \<Rightarrow> (Inl e, s')
        | (Inr rows, s') \<Rightarrow>
            (case single rows of
               None \<Rightarrow> (Inr None, s')
             | Some rel \<Rightarrow> (Inr (Some (created_relationship_dict rel)), s'))))"

text \<open>A row of \<^verbatim>\<open>RETURN n, r, m\<close>; \<open>None\<close> is the null of an optional match.\<close>

record graph_row =
  row_n :: "node option"
  row_r :: "relationship option"
  row_m :: "node option"

definition get_graph_query :: string where
  "get_graph_query =
     ''\<newline>                MATCH (n)'' @
     ''\<newline>                OPTIONAL MATCH (n)-[r]->(m)'' @
     ''\<newline>                RETURN n, r, m'' @
     ''\<newline>                LIMIT $limit'' @
     ''\<newline>                ''"

text \<open>
  \<^verbatim>\<open>if record[k] and record[k].id not in nodes: nodes[node.id] = {...}\<close>. The dictionary
  \<^verbatim>\<open>nodes\<close> only ever receives new keys, so it is the list of its items in insertion order.
\<close>

definition add_node :: "(datetime \<Rightarrow> string) \<Rightarrow> node option \<Rightarrow> (int \<times> pyvalue) list
    \<Rightarrow> (int \<times> pyvalue) list" where
  "add_node isoformat cell nodes =
     (case cell of
        None \<Rightarrow> nodes
      | Some nd \<Rightarrow>
          if entity_bool (node_props nd) \<and> node_id nd \<notin> set (map fst nodes)
          then nodes @ [(node_id nd, node_dict isoformat nd)]
          else nodes)"

definition relationship_dict :: "(datetime \<Rightarrow> string) \<Rightarrow> relationship \<Rightarrow> pyvalue" where
  "relationship_dict isoformat rel = DictVal
     [(''id'', IntVal (relationship_id rel)),
      (''type'', StrVal (relationship_type rel)),
      (''source'', IntVal (node_id (start_node rel))),
      (''target'', IntVal (node_id (end_node rel))),
      (''properties'', DictVal (convert_properties isoformat (relationship_props rel)))]"

definition add_relationship :: "(datetime \<Rightarrow> string) \<Rightarrow> relationship option \<Rightarrow> pyvalue list
    \<Rightarrow> pyvalue list" where
  "add_relationship isoformat cell relationships =
     (case cell of
        None \<Rightarrow> relationships
      | Some rel \<Rightarrow>
          if entity_bool (relationship_props rel)
          then relationships @ [relationship_dict isoformat rel]
          else relationships)"

text \<open>One pass of the loop over the result records.\<close>

definition graph_step :: "(datetime \<Rightarrow> string) \<Rightarrow> (int \<times> pyvalue) list \<times> pyvalue list \<Rightarrow> graph_row
    \<Rightarrow> (int \<times> pyvalue) list \<times> pyvalue list" where
  "graph_step isoformat acc row =
     (case acc of (nodes, relationships) \<Rightarrow>
        (add_node isoformat (row_m row) (add_node isoformat (row_n row) nodes),
         add_relationship isoformat (row_r row) relationships))"

definition graph_loop :: "(datetime \<Rightarrow> string) \<Rightarrow> graph_row list
    \<Rightarrow> (int \<times> pyvalue) list \<times> pyvalue list" where
  "graph_loop isoformat rows = foldl (graph_step isoformat) ([], []) rows"

definition get_graph :: "(datetime \<Rightarrow> string) \<Rightarrow> (string \<Rightarrow> params \<Rightarrow> exn + graph_row list)
    \<Rightarrow> int \<Rightarrow> (exn + pyvalue) \<times> session" where
  "get_graph isoformat answer limit = session_scope (\<lambda>s.
     case run answer get_graph_query [(''limit'', IntVal limit)] s of
       (Inl e, s') \<Rightarrow> (Inl e, s')
     | (Inr rows, s') \<Rightarrow>
         (case graph_loop isoformat rows of (nodes, relationships) \<Rightarrow>
            (Inr (DictVal [(''nodes'', ListVal (map snd nodes)),
                           (''relationships'', ListVal relationships)]), s')))"

text \<open>\<^verbatim>\<open>record.data()\<close> of a row of scalars is the dictionary of its columns.\<close>

definition execute_query :: "(string \<Rightarrow> params \<Rightarrow> exn + pyvalue dict list) \<Rightarrow> string
    \<Rightarrow> params option \<Rightarrow> (exn + pyvalue dict list) \<times> session" where
  "execute_query answer query ps =
     (let ps' = (case ps of None \<Rightarrow> [] | Some p \<Rightarrow> p) in
      session_scope (\<lambda>s.
        case run answer query ps' s of
          (Inl e, s') \<Rightarrow> (Inl e, s')
        | (Inr rows, s') \<Rightarrow> (Inr rows, s')))"

section \<open>Request bodies\<close>

text \<open>\<^verbatim>\<open>NodeCreate\<close> (the same fields in main.py and in the router).\<close>

record node_create =
  nc_label :: string
  nc_properties :: "pyvalue dict"

text \<open>\<^verbatim>\<open>RelationshipCreate\<close> of the router: integer node ids.\<close>

record relationship_create =
  rc_from_id :: int
  rc_to_id :: int
  rc_type :: string
  rc_properties :: "pyvalue dict option"

text \<open>\<^verbatim>\<open>RelationshipCreate\<close> of main.py: the nodes are named by their \<^verbatim>\<open>uiNodeId\<close> property.\<close>

record ui_relationship_create =
  urc_from_id :: string
  urc_to_id :: string
  urc_type :: string
  urc_properties :: "pyvalue dict option"

section \<open>The /neo4j router (routers/neo4j\_router.py)\<close>

definition router_create_node_query :: "string \<Rightarrow> string" where
  "router_create_node_query label = ''CREATE (n:'' @ label @ '' $props) RETURN n''"

definition router_create_node :: "(exn \<Rightarrow> string) \<Rightarrow> (string \<Rightarrow> params \<Rightarrow> exn + node list)
    \<Rightarrow> node_create \<Rightarrow> (exn + pyvalue) \<times> session" where
  "router_create_node str_exn answer node_data = except_Exception str_exn []
     (session_scope (\<lambda>s.
        case run answer (router_create_node_query (nc_label node_data))
               [(''props'', DictVal (nc_properties node_data))] s of
          (Inl e, s') \<Rightarrow> (Inl e, s')
        | (Inr rows, s') \<Rightarrow>
            (case single rows of
               None \<Rightarrow> (Inl (HTTPException 500 ''Failed to create node''), s')
             | Some nd \<Rightarrow>
                 (Inr (DictVal [(''node'', DictVal
                    [(''id'', StrVal (str_int (node_id nd))),
                     (''labels'', ListVal (map StrVal (node_labels nd))),
                     (''properties'', DictVal (node_props nd))])]), s'))))"

definition get_node :: "(exn \<Rightarrow> string) \<Rightarrow> (datetime \<Rightarrow> string)
    \<Rightarrow> (string \<Rightarrow> params \<Rightarrow> exn + node list) \<Rightarrow> int \<Rightarrow> (exn + pyvalue) \<times> session" where
  "get_node str_exn isoformat answer nid = except_Exception str_exn ''Neo4j error: ''
     (case get_node_by_id isoformat answer nid of
        (Inl e, s) \<Rightarrow> (Inl e, s)
      | (Inr None, s) \<Rightarrow>
          (Inl (HTTPException 404 (''Node with ID '' @ str_int nid @ '' not found'')), s)
      | (Inr (Some result), s) \<Rightarrow> (Inr (DictVal [(''node'', result)]), s))"

definition router_create_relationship :: "(exn \<Rightarrow> string)
    \<Rightarrow> (string \<Rightarrow> params \<Rightarrow> exn + relationship list) \<Rightarrow> relationship_create
    \<Rightarrow> (exn + pyvalue) \<times> session" where
  "router_create_relationship str_exn answer rc = except_Exception str_exn ''Neo4j error: ''
     (case create_relationship answer (rc_from_id rc) (rc_to_id rc) (rc_type rc) (rc_properties rc) of
        (Inl e, s) \<Rightarrow> (Inl e, s)
      | (Inr None, s) \<Rightarrow> (Inl (HTTPException 500 ''Failed to create relationship''), s)
      | (Inr (Some result), s) \<Rightarrow> (Inr (DictVal [(''relationship'', result)]), s))"

definition router_get_graph :: "(exn \<Rightarrow> string) \<Rightarrow> (datetime \<Rightarrow> string)
    \<Rightarrow> (string \<Rightarrow> params \<Rightarrow> exn + graph_row list) \<Rightarrow> int \<Rightarrow> (exn + pyvalue) \<times> session" where
  "router_get_graph str_exn isoformat answer limit =
     except_Exception str_exn ''Neo4j error: '' (get_graph isoformat answer limit)"

definition test_connection_query :: string where
  "test_connection_query = ''RETURN '' @ [CHR 0x27] @ ''Connected!'' @ [CHR 0x27] @ '' AS message''"

text \<open>\<^verbatim>\<open>result[0]["message"]\<close> raises on an empty list and on a row without that column.\<close>

definition test_connection :: "(exn \<Rightarrow> string) \<Rightarrow> (string \<Rightarrow> params \<Rightarrow> exn + pyvalue dict list)
    \<Rightarrow> (exn + pyvalue) \<times> session" where
  "test_connection str_exn answer = except_Exception str_exn ''Neo4j connection failed: ''
     (case execute_query answer test_connection_query None of
        (Inl e, s) \<Rightarrow> (Inl e, s)
      | (Inr [], s) \<Rightarrow> (Inl (IndexError ''list index out of range''), s)
      | (Inr (row # _), s) \<Rightarrow>
          (case map_of row ''message'' of
             None \<Rightarrow> (Inl (KeyError ''message''), s)
           | Some msg \<Rightarrow>
               (Inr (DictVal [(''status'', StrVal ''success''), (''message'', msg)]), s)))"

section \<open>The /api endpoints (main.py)\<close>

text \<open>
  main.py opens its sessions with \<^verbatim>\<open>with driver.session() as session\<close>; the driver's
  session closes itself on leaving the block, as \<open>session_scope\<close> does.
\<close>

definition main_create_relationship_query :: "string \<Rightarrow> string" where
  "main_create_relationship_query ty =
     ''\<newline>                MATCH (from) WHERE from.uiNodeId = $from_id'' @
     ''\<newline>                MATCH (to) WHERE to.uiNodeId = $to_id'' @
     ''\<newline>                CREATE (from)-[r:'' @ ty @ '']->(to)'' @
     ''\<newline>                SET r += $properties'' @
     ''\<newline>                RETURN r'' @
     ''\<newline>                ''"

text \<open>The result of \<^verbatim>\<open>session.run\<close> is never read: success is reported whatever it holds.\<close>

definition main_create_relationship :: "(exn \<Rightarrow> string)
    \<Rightarrow> (string \<Rightarrow> params \<Rightarrow> exn + relationship list) \<Rightarrow> ui_relationship_create
    \<Rightarrow> (exn + pyvalue) \<times> session" where
  "main_create_relationship str_exn answer rc = except_Exception str_exn []
     (session_scope (\<lambda>s.
        case run answer (main_create_relationship_query (urc_type rc))
               [(''from_id'', StrVal (urc_from_id rc)),
                (''to_id'', StrVal (urc_to_id rc)),
                (''properties'', (case urc_properties rc of None \<Rightarrow> NoneVal | Some p \<Rightarrow> DictVal p))] s of
          (Inl e, s') \<Rightarrow> (Inl e, s')
        | (Inr result, s') \<Rightarrow>
            (Inr (DictVal [(''message'', StrVal ''Relationship created successfully'')]), s')))"

definition main_create_node_query :: "string \<Rightarrow> string" where
  "main_create_node_query label =
     ''\<newline>                CREATE (n:'' @ label @ '' $properties)'' @
     ''\<newline>                RETURN n'' @
     ''\<newline>                ''"

text \<open>\<^verbatim>\<open>result.single()['n']\<close> raises \<^verbatim>\<open>TypeError\<close> when there is no record.\<close>

definition main_create_node :: "(exn \<Rightarrow> string) \<Rightarrow> (string \<Rightarrow> params \<Rightarrow> exn + node list)
    \<Rightarrow> node_create \<Rightarrow> (exn + pyvalue) \<times> session" where
  "main_create_node str_exn answer nc = except_Exception str_exn []
     (session_scope (\<lambda>s.
        case run answer (main_create_node_query (nc_label nc))
               [(''properties'', DictVal (nc_properties nc))] s of
          (Inl e, s') \<Rightarrow> (Inl e, s')
        | (Inr rows, s') \<Rightarrow>
            (case single rows of
               None \<Rightarrow> (Inl (TypeError ([CHR 0x27] @ ''NoneType'' @ [CHR 0x27] @ '' object is not subscriptable'')), s')
             | Some created_node \<Rightarrow>
                 (Inr (DictVal [(''node'', DictVal
                    [(''id'', IntVal (node_id created_node)),
                     (''properties'', DictVal (node_props created_node))])]), s'))))"

section \<open>Reading a response\<close>

text \<open>\<^verbatim>\<open>d.get(k)\<close> on a response value; used only to state properties.\<close>

definition dict_get :: "pyvalue \<Rightarrow> string \<Rightarrow> pyvalue option" where
  "dict_get v k = (case v of DictVal d \<Rightarrow> map_of d k | _ \<Rightarrow> None)"

text \<open>
  The invariant of the dictionary \<^verbatim>\<open>nodes\<close> in \<^verbatim>\<open>get_graph\<close>: its keys are distinct and
  each entry carries its key as \<^verbatim>\<open>"id"\<close>.
\<close>

definition keyed_by_id :: "(int \<times> pyvalue) list \<Rightarrow> bool" where
  "keyed_by_id nodes =
     (distinct (map fst nodes) \<and>
      map (\<lambda>v. dict_get v ''id'') (map snd nodes) = map (\<lambda>i. Some (IntVal i)) (map fst nodes))"

text \<open>
  The identifier rule of the specification (alphanumeric and underscore, non-empty). It is
  written from the specification's words; the source has no counterpart.
\<close>

definition spec_safe_identifier :: "string \<Rightarrow> bool" where
  "spec_safe_identifier s =
     (s \<noteq> [] \<and>
      list_all (\<lambda>c. c \<in> set ''abcdefghijklmnopqrstuvwxyzABCDEFGHIJKLMNOPQRSTUVWXYZ0123456789_'') s)"

text \<open>
  What the graph query guarantees of a row \<^verbatim>\<open>(n)-[r]->(m)\<close>: a relationship comes with its
  two end nodes, \<open>n\<close> its start and \<open>m\<close> its end.
\<close>

definition row_wellformed :: "graph_row \<Rightarrow> bool" where
  "row_wellformed row =
     (case row_r row of
        None \<Rightarrow> True
      | Some rel \<Rightarrow> row_n row = Some (start_node rel) \<and> row_m row = Some (end_node rel))"

definition row_nodes_have_properties :: "graph_row \<Rightarrow> bool" where
  "row_nodes_have_properties row =
     ((case row_n row of None \<Rightarrow> True | Some nd \<Rightarrow> node_props nd \<noteq> []) \<and>
      (case row_m row of None \<Rightarrow> True | Some nd \<Rightarrow> node_props nd \<noteq> []))"

text \<open>A relationship entry whose source and target are both among the given node ids.\<close>

definition endpoints_in :: "int list \<Rightarrow> pyvalue \<Rightarrow> bool" where
  "endpoints_in ids rel =
     (case (dict_get rel ''source'', dict_get rel ''target'') of
        (Some (IntVal s), Some (IntVal t)) \<Rightarrow> s \<in> set ids \<and> t \<in> set ids
      | _ \<Rightarrow> False)"

definition endpoints_listed :: "(int \<times> pyvalue) list \<times> pyvalue list \<Rightarrow> bool" where
  "endpoints_listed acc = list_all (endpoints_in (map fst (fst acc))) (snd acc)"

section \<open>Property converter: results\<close>

lemma convert_fixes_converted:
  "convert_neo4j_to_python isoformat (convert_neo4j_to_python isoformat v) =
   convert_neo4j_to_python isoformat v"
  by (cases v) (simp_all add: convert_neo4j_to_python_def)

lemma convert_other_unchanged: "\<not> is_DateTime v \<Longrightarrow> convert_neo4j_to_python isoformat v = v"
  by (cases v) (simp_all add: convert_neo4j_to_python_def)

lemma map_of_convert_properties:
  "map_of (convert_properties isoformat P) k =
   map_option (convert_neo4j_to_python isoformat) (map_of P k)"
  by (induction P) (auto simp: convert_properties_def)

text \<open>
  C4. Property conversion is idempotent: converting a converted value gives the same value,
  and converting a converted property mapping gives the same mapping.
\<close>

theorem convert_idempotent:
  "convert_neo4j_to_python isoformat (convert_neo4j_to_python isoformat v) =
     convert_neo4j_to_python isoformat v
   \<and> convert_properties isoformat (convert_properties isoformat P) =
     convert_properties isoformat P"
  by (simp add: convert_fixes_converted convert_properties_def case_prod_unfold)

text \<open>
  C7. The converter maps a \<open>DateTime\<close> to the string \<^verbatim>\<open>to_native().isoformat()\<close> gives,
  returns every value that is not a \<open>DateTime\<close> as it is, and on a property mapping keeps
  the keys (in their order) and converts the value under each key.
\<close>

theorem convert_maps_datetime_keeps_rest:
  "convert_neo4j_to_python isoformat (DateTime d) = StrVal (isoformat d)
   \<and> (\<not> is_DateTime v \<longrightarrow> convert_neo4j_to_python isoformat v = v)
   \<and> map fst (convert_properties isoformat P) = map fst P
   \<and> map_of (convert_properties isoformat P) k =
       map_option (convert_neo4j_to_python isoformat) (map_of P k)"
proof -
  have "convert_neo4j_to_python isoformat (DateTime d) = StrVal (isoformat d)"
    by (simp add: convert_neo4j_to_python_def)
  moreover have "map fst (convert_properties isoformat P) = map fst P"
    by (simp add: convert_properties_def case_prod_unfold comp_def)
  ultimately show ?thesis
    using convert_other_unchanged map_of_convert_properties by blast
qed

theorem convert_maps_datetime_keeps_rest_witness:
  "convert_neo4j_to_python (\<lambda>d. ''2024-05-01T12:00:00'')
      (DateTime \<lparr>dt_year = 2024, dt_month = 5, dt_day = 1, dt_hour = 12, dt_minute = 0,
                 dt_second = 0, dt_nanosecond = 0, dt_utc_offset = None\<rparr>)
     = StrVal ''2024-05-01T12:00:00''
   \<and> \<not> is_DateTime (IntVal 3)
   \<and> convert_neo4j_to_python (\<lambda>d. ''2024-05-01T12:00:00'') (IntVal 3) = IntVal 3
   \<and> map fst (convert_properties (\<lambda>d. ''2024-05-01T12:00:00'')
        [(''name'', StrVal ''Ann''), (''age'', IntVal 3)]) = [''name'', ''age'']
   \<and> map_of (convert_properties (\<lambda>d. ''2024-05-01T12:00:00'')
        [(''name'', StrVal ''Ann''), (''age'', IntVal 3)]) ''age'' = Some (IntVal 3)"
  using convert_maps_datetime_keeps_rest
    [of "\<lambda>d. ''2024-05-01T12:00:00''"
        "\<lparr>dt_year = 2024, dt_month = 5, dt_day = 1, dt_hour = 12, dt_minute = 0,
          dt_second = 0, dt_nanosecond = 0, dt_utc_offset = None\<rparr>"
        "IntVal 3" "[(''name'', StrVal ''Ann''), (''age'', IntVal 3)]" "''age''"]
  by (simp add: convert_neo4j_to_python_def)

section \<open>Scoped sessions: results\<close>

text \<open>
  C8. Whatever block runs inside a scoped session, whether it returns a value or raises,
  the session it was given is closed afterwards and the block's outcome is passed on. So
  every operation of the connection leaves its session closed.
\<close>

theorem session_closed_on_every_exit:
  "closed (snd (session_scope body))
   \<and> fst (session_scope body) = fst (body new_session)
   \<and> closed (snd (get_node_by_id isoformat answer_n nid))
   \<and> closed (snd (create_relationship answer_r from_id to_id rel_type properties))
   \<and> closed (snd (get_graph isoformat answer_g limit))
   \<and> closed (snd (execute_query answer_q query ps))"
  by (simp add: session_scope_def session_close_def get_node_by_id_def create_relationship_def
      get_graph_def execute_query_def Let_def split: prod.splits)

section \<open>Graph slice: results\<close>

lemma node_dict_id: "dict_get (node_dict isoformat nd) ''id'' = Some (IntVal (node_id nd))"
  by (simp add: node_dict_def dict_get_def)

lemma add_node_keyed: "keyed_by_id nodes \<Longrightarrow> keyed_by_id (add_node isoformat cell nodes)"
  by (cases cell) (auto simp: add_node_def keyed_by_id_def node_dict_id)

lemma graph_step_keyed:
  "keyed_by_id (fst acc) \<Longrightarrow> keyed_by_id (fst (graph_step isoformat acc row))"
  by (cases acc) (simp add: graph_step_def add_node_keyed)

lemma foldl_graph_step_keyed:
  "keyed_by_id (fst acc) \<Longrightarrow> keyed_by_id (fst (foldl (graph_step isoformat) acc rows))"
  by (induction rows arbitrary: acc) (simp_all add: graph_step_keyed)

lemma graph_loop_keyed: "keyed_by_id (fst (graph_loop isoformat rows))"
  unfolding graph_loop_def by (rule foldl_graph_step_keyed) (simp add: keyed_by_id_def)

lemma get_graph_returns:
  assumes "answer get_graph_query [(''limit'', IntVal limit)] = Inr rows"
  shows "fst (get_graph isoformat answer limit) =
     Inr (DictVal [(''nodes'', ListVal (map snd (fst (graph_loop isoformat rows)))),
                   (''relationships'', ListVal (snd (graph_loop isoformat rows)))])"
  using assms by (simp add: get_graph_def session_scope_def run_def split: prod.splits)

text \<open>
  C5. When the store answers the graph query with rows, \<^verbatim>\<open>get_graph\<close> returns a node list
  and a relationship list, and the ids of the node list are pairwise different: no node
  id occurs twice, however many rows name the node.
\<close>

theorem get_graph_nodes_deduplicated:
  assumes "answer get_graph_query [(''limit'', IntVal limit)] = Inr rows"
  shows "\<exists>ns rs ids.
           fst (get_graph isoformat answer limit) =
             Inr (DictVal [(''nodes'', ListVal ns), (''relationships'', ListVal rs)])
         \<and> map (\<lambda>v. dict_get v ''id'') ns = map (\<lambda>i. Some (IntVal i)) ids
         \<and> distinct ids"
proof -
  let ?acc = "graph_loop isoformat rows"
  have "keyed_by_id (fst ?acc)"
    by (rule graph_loop_keyed)
  then have ids: "map (\<lambda>v. dict_get v ''id'') (map snd (fst ?acc)) =
      map (\<lambda>i. Some (IntVal i)) (map fst (fst ?acc))"
    and dist: "distinct (map fst (fst ?acc))"
    by (simp_all add: keyed_by_id_def)
  from assms have "fst (get_graph isoformat answer limit) =
      Inr (DictVal [(''nodes'', ListVal (map snd (fst ?acc))),
                    (''relationships'', ListVal (snd ?acc))])"
    by (rule get_graph_returns)
  with ids dist show ?thesis by blast
qed

text \<open>
  Two relationships \<open>1 \<rightarrow> 3\<close> and \<open>2 \<rightarrow> 3\<close> share their target: node 3 is listed once.
\<close>

theorem get_graph_nodes_deduplicated_witness:
  "(\<exists>ns rs ids.
      fst (get_graph (\<lambda>d. ''2024-05-01T12:00:00'')
        (\<lambda>q ps. Inr
          [\<lparr>row_n = Some \<lparr>node_id = 1, node_labels = [''User''], node_props = [(''name'', StrVal ''Ann'')]\<rparr>,
            row_r = Some \<lparr>relationship_id = 10, relationship_type = ''HAS_GOAL'',
                          start_node = \<lparr>node_id = 1, node_labels = [''User''], node_props = [(''name'', StrVal ''Ann'')]\<rparr>,
                          end_node = \<lparr>node_id = 3, node_labels = [''Goal''], node_props = [(''title'', StrVal ''Run'')]\<rparr>,
                          relationship_props = [(''since'', IntVal 2020)]\<rparr>,
            row_m = Some \<lparr>node_id = 3, node_labels = [''Goal''], node_props = [(''title'', StrVal ''Run'')]\<rparr>\<rparr>,
           \<lparr>row_n = Some \<lparr>node_id = 2, node_labels = [''User''], node_props = [(''name'', StrVal ''Bob'')]\<rparr>,
            row_r = Some \<lparr>relationship_id = 11, relationship_type = ''HAS_GOAL'',
                          start_node = \<lparr>node_id = 2, node_labels = [''User''], node_props = [(''name'', StrVal ''Bob'')]\<rparr>,
                          end_node = \<lparr>node_id = 3, node_labels = [''Goal''], node_props = [(''title'', StrVal ''Run'')]\<rparr>,
                          relationship_props = [(''since'', IntVal 2021)]\<rparr>,
            row_m = Some \<lparr>node_id = 3, node_labels = [''Goal''], node_props = [(''title'', StrVal ''Run'')]\<rparr>\<rparr>,
           \<lparr>row_n = Some \<lparr>node_id = 3, node_labels = [''Goal''], node_props = [(''title'', StrVal ''Run'')]\<rparr>,
            row_r = None, row_m = None\<rparr>])
        100) = Inr (DictVal [(''nodes'', ListVal ns), (''relationships'', ListVal rs)])
      \<and> map (\<lambda>v. dict_get v ''id'') ns = map (\<lambda>i. Some (IntVal i)) ids
      \<and> distinct ids)"
  by (rule get_graph_nodes_deduplicated) simp

text \<open>
  C6. A graph holding the single node 1, labelled \<^verbatim>\<open>Tag\<close> and without properties, gives one
  row with no relationship. The node is falsy, so the mapper contributes neither a
  relationship nor the node: both lists are empty.
\<close>

theorem get_graph_skips_node_without_properties:
  "fst (get_graph isoformat
     (\<lambda>q ps. Inr [\<lparr>row_n = Some \<lparr>node_id = 1, node_labels = [''Tag''], node_props = []\<rparr>,
                    row_r = None, row_m = None\<rparr>])
     100) = Inr (DictVal [(''nodes'', ListVal []), (''relationships'', ListVal [])])"
  by (simp add: get_graph_def session_scope_def run_def graph_loop_def graph_step_def
      add_node_def add_relationship_def entity_bool_def)

text \<open>
  C10. A graph with the relationship \<open>1 \<rightarrow> 2\<close> whose source node 1 has no properties: the
  relationship entry is returned with source 1, and the node list holds node 2 only, so
  the entry's source is not among the listed node ids.
\<close>

theorem get_graph_relationship_without_source_node:
  "fst (get_graph isoformat
     (\<lambda>q ps. Inr
        [\<lparr>row_n = Some \<lparr>node_id = 1, node_labels = [''Tag''], node_props = []\<rparr>,
          row_r = Some \<lparr>relationship_id = 5, relationship_type = ''TAGS'',
                        start_node = \<lparr>node_id = 1, node_labels = [''Tag''], node_props = []\<rparr>,
                        end_node = \<lparr>node_id = 2, node_labels = [''User''], node_props = [(''name'', StrVal ''Ann'')]\<rparr>,
                        relationship_props = [(''since'', IntVal 2020)]\<rparr>,
          row_m = Some \<lparr>node_id = 2, node_labels = [''User''], node_props = [(''name'', StrVal ''Ann'')]\<rparr>\<rparr>,
         \<lparr>row_n = Some \<lparr>node_id = 2, node_labels = [''User''], node_props = [(''name'', StrVal ''Ann'')]\<rparr>,
          row_r = None, row_m = None\<rparr>])
     100) =
   Inr (DictVal
     [(''nodes'', ListVal
        [DictVal [(''id'', IntVal 2), (''labels'', ListVal [StrVal ''User'']),
                  (''properties'', DictVal [(''name'', StrVal ''Ann'')])]]),
      (''relationships'', ListVal
        [DictVal [(''id'', IntVal 5), (''type'', StrVal ''TAGS''), (''source'', IntVal 1),
                  (''target'', IntVal 2), (''properties'', DictVal [(''since'', IntVal 2020)])]])])
   \<and> \<not> endpoints_in [2]
        (DictVal [(''id'', IntVal 5), (''type'', StrVal ''TAGS''), (''source'', IntVal 1),
                  (''target'', IntVal 2), (''properties'', DictVal [(''since'', IntVal 2020)])])"
  by (simp add: get_graph_def session_scope_def run_def graph_loop_def graph_step_def
      add_node_def add_relationship_def entity_bool_def node_dict_def relationship_dict_def
      convert_properties_def convert_neo4j_to_python_def endpoints_in_def dict_get_def)

text \<open>
  Where every node of every row has a property, the slice is closed: each relationship
  entry finds both its end nodes in the node list. The rows of C6 and C10 lie outside.
\<close>

lemma endpoints_in_mono:
  "endpoints_in ids rel \<Longrightarrow> set ids \<subseteq> set ids' \<Longrightarrow> endpoints_in ids' rel"
  unfolding endpoints_in_def by (auto split: option.splits pyvalue.splits)

lemma add_node_keeps_keys: "set (map fst nodes) \<subseteq> set (map fst (add_node isoformat cell nodes))"
  by (cases cell) (auto simp: add_node_def)

lemma add_node_lists_node:
  "node_props nd \<noteq> [] \<Longrightarrow> node_id nd \<in> set (map fst (add_node isoformat (Some nd) nodes))"
  by (auto simp: add_node_def entity_bool_def)

lemma relationship_dict_endpoints:
  "node_id (start_node rel) \<in> set ids \<Longrightarrow> node_id (end_node rel) \<in> set ids
   \<Longrightarrow> endpoints_in ids (relationship_dict isoformat rel)"
  by (simp add: endpoints_in_def relationship_dict_def dict_get_def)

lemma graph_step_endpoints_listed:
  assumes "endpoints_listed acc" "row_wellformed row" "row_nodes_have_properties row"
  shows "endpoints_listed (graph_step isoformat acc row)"
proof -
  obtain nodes rels where acc: "acc = (nodes, rels)" by (cases acc)
  let ?n1 = "add_node isoformat (row_n row) nodes"
  let ?n2 = "add_node isoformat (row_m row) ?n1"
  have sub1: "set (map fst nodes) \<subseteq> set (map fst ?n1)"
    by (rule add_node_keeps_keys)
  have sub2: "set (map fst ?n1) \<subseteq> set (map fst ?n2)"
    by (rule add_node_keeps_keys)
  from sub1 sub2 have sub: "set (map fst nodes) \<subseteq> set (map fst ?n2)"
    by (rule subset_trans)
  from assms(1) have "list_all (endpoints_in (map fst nodes)) rels"
    by (simp add: endpoints_listed_def acc)
  then have old: "list_all (endpoints_in (map fst ?n2)) rels"
    unfolding list_all_iff using endpoints_in_mono [OF _ sub] by blast
  show ?thesis
  proof (cases "row_r row")
    case None
    then show ?thesis using old
      by (simp add: acc graph_step_def add_relationship_def endpoints_listed_def)
  next
    case (Some rel)
    with assms(2) have n: "row_n row = Some (start_node rel)"
      and m: "row_m row = Some (end_node rel)"
      by (simp_all add: row_wellformed_def)
    from assms(3) n m have ps: "node_props (start_node rel) \<noteq> []"
      and pt: "node_props (end_node rel) \<noteq> []"
      by (simp_all add: row_nodes_have_properties_def)
    have "node_id (start_node rel) \<in> set (map fst ?n1)"
      unfolding n by (rule add_node_lists_node [OF ps])
    with sub2 have s: "node_id (start_node rel) \<in> set (map fst ?n2)"
      by (rule subsetD)
    have t: "node_id (end_node rel) \<in> set (map fst ?n2)"
      unfolding m by (rule add_node_lists_node [OF pt])
    have new: "endpoints_in (map fst ?n2) (relationship_dict isoformat rel)"
      using s t by (rule relationship_dict_endpoints)
    show ?thesis using old new Some
      by (simp add: acc graph_step_def add_relationship_def endpoints_listed_def)
  qed
qed

lemma foldl_graph_step_endpoints_listed:
  "endpoints_listed acc \<Longrightarrow> list_all row_wellformed rows
   \<Longrightarrow> list_all row_nodes_have_properties rows
   \<Longrightarrow> endpoints_listed (foldl (graph_step isoformat) acc rows)"
  by (induction rows arbitrary: acc) (simp_all add: graph_step_endpoints_listed)

lemma graph_loop_endpoints_listed:
  "list_all row_wellformed rows \<Longrightarrow> list_all row_nodes_have_properties rows
   \<Longrightarrow> endpoints_listed (graph_loop isoformat rows)"
  unfolding graph_loop_def
  by (rule foldl_graph_step_endpoints_listed) (simp_all add: endpoints_listed_def)

section \<open>Endpoints: results\<close>

lemma str_int_42: "str_int 42 = ''42''"
  by code_simp

text \<open>
  C2. Fetching node 42 from a store that has no such node (the query returns no record):
  the 404 raised inside the \<^verbatim>\<open>try\<close> is caught by \<^verbatim>\<open>except Exception\<close>, and the endpoint
  answers with status 500.
\<close>

theorem get_node_absent_answers_500:
  "fst (get_node str_exn isoformat (\<lambda>q ps. Inr []) 42) =
     Inl (HTTPException 500
       (''Neo4j error: '' @ str_exn (HTTPException 404 ''Node with ID 42 not found'')))
   \<and> http_status (fst (get_node str_exn isoformat (\<lambda>q ps. Inr []) 42)) = 500"
  by (simp add: get_node_def get_node_by_id_def session_scope_def run_def single_def
      except_Exception_def http_status_def str_int_42)

text \<open>
  C3. A store in which the endpoints match no node answers the creating query with no
  record. \<^verbatim>\<open>POST /api/relationships\<close> never reads the result and reports success;
  \<^verbatim>\<open>POST /neo4j/relationships\<close> answers with status 500.
\<close>

theorem create_relationship_unmatched_endpoints:
  "fst (main_create_relationship str_exn (\<lambda>q ps. Inr [])
          \<lparr>urc_from_id = ''a'', urc_to_id = ''b'', urc_type = ''KNOWS'', urc_properties = Some []\<rparr>)
     = Inr (DictVal [(''message'', StrVal ''Relationship created successfully'')])
   \<and> http_status (fst (router_create_relationship str_exn (\<lambda>q ps. Inr [])
          \<lparr>rc_from_id = 1, rc_to_id = 2, rc_type = ''KNOWS'', rc_properties = None\<rparr>)) = 500"
  by (simp add: main_create_relationship_def router_create_relationship_def
      create_relationship_def session_scope_def run_def single_def except_Exception_def
      http_status_def)

text \<open>
  C9. If the store answers the test query with the single row \<^verbatim>\<open>message = 'Connected!'\<close>
  (a reachable store evaluating \<^verbatim>\<open>RETURN 'Connected!' AS message\<close>), the endpoint returns
  status \<^verbatim>\<open>success\<close> and the message \<^verbatim>\<open>Connected!\<close>. If running the query raises (the
  store cannot be reached), the endpoint answers with status 500 and the detail
  \<^verbatim>\<open>Neo4j connection failed: \<close> followed by the exception's text.
\<close>

theorem test_connection_outcomes:
  "(answer test_connection_query [] = Inr [[(''message'', StrVal ''Connected!'')]] \<longrightarrow>
      fst (test_connection str_exn answer) =
        Inr (DictVal [(''status'', StrVal ''success''), (''message'', StrVal ''Connected!'')]))
   \<and> (answer test_connection_query [] = Inl e \<longrightarrow>
      fst (test_connection str_exn answer) =
        Inl (HTTPException 500 (''Neo4j connection failed: '' @ str_exn e))
      \<and> http_status (fst (test_connection str_exn answer)) = 500)"
  by (simp add: test_connection_def execute_query_def session_scope_def run_def
      except_Exception_def http_status_def)

theorem test_connection_outcomes_witness:
  "fst (test_connection (\<lambda>e. ''Unable to connect'')
          (\<lambda>q ps. Inr [[(''message'', StrVal ''Connected!'')]])) =
     Inr (DictVal [(''status'', StrVal ''success''), (''message'', StrVal ''Connected!'')])
   \<and> fst (test_connection (\<lambda>e. ''Unable to connect'')
          (\<lambda>q ps. Inl (ServiceUnavailable ''Unable to connect''))) =
     Inl (HTTPException 500 ''Neo4j connection failed: Unable to connect'')
   \<and> http_status (fst (test_connection (\<lambda>e. ''Unable to connect'')
          (\<lambda>q ps. Inl (ServiceUnavailable ''Unable to connect'')))) = 500"
  using test_connection_outcomes
      [where answer = "\<lambda>q ps. Inr [[(''message'', StrVal ''Connected!'')]]"
         and e = "ServiceUnavailable ''Unable to connect''" and str_exn = "\<lambda>e. ''Unable to connect''"]
    test_connection_outcomes
      [where answer = "\<lambda>q ps. Inl (ServiceUnavailable ''Unable to connect'')"
         and e = "ServiceUnavailable ''Unable to connect''" and str_exn = "\<lambda>e. ''Unable to connect''"]
  by (simp add: http_status_def)

text \<open>
  C1, as the code has it. The create operations do not validate the label or the
  relationship type: whatever the string, each operation splices it into its query text
  and sends exactly that one query with the properties as parameters. No validation
  error is produced: the endpoint answers with status 200 or 500, and with status 500
  and the text of the store's exception whenever the store raises on the query.
\<close>

theorem create_operations_send_unvalidated:
  "issued (snd (main_create_node str_exn answer_n nc)) =
     [(main_create_node_query (nc_label nc), [(''properties'', DictVal (nc_properties nc))])]
   \<and> issued (snd (router_create_node str_exn answer_n nc)) =
     [(router_create_node_query (nc_label nc), [(''props'', DictVal (nc_properties nc))])]
   \<and> issued (snd (create_relationship answer_r from_id to_id rel_type properties)) =
     [(create_relationship_query rel_type,
       [(''from_id'', IntVal from_id), (''to_id'', IntVal to_id),
        (''props'', DictVal (case properties of None \<Rightarrow> [] | Some p \<Rightarrow> p))])]
   \<and> issued (snd (main_create_relationship str_exn answer_r urc)) =
     [(main_create_relationship_query (urc_type urc),
       [(''from_id'', StrVal (urc_from_id urc)), (''to_id'', StrVal (urc_to_id urc)),
        (''properties'', (case urc_properties urc of None \<Rightarrow> NoneVal | Some p \<Rightarrow> DictVal p))])]
   \<and> (http_status (fst (main_create_node str_exn answer_n nc)) = 200
        \<or> http_status (fst (main_create_node str_exn answer_n nc)) = 500)
   \<and> (http_status (fst (router_create_node str_exn answer_n nc)) = 200
        \<or> http_status (fst (router_create_node str_exn answer_n nc)) = 500)
   \<and> (http_status (fst (router_create_relationship str_exn answer_r rc)) = 200
        \<or> http_status (fst (router_create_relationship str_exn answer_r rc)) = 500)
   \<and> (http_status (fst (main_create_relationship str_exn answer_r urc)) = 200
        \<or> http_status (fst (main_create_relationship str_exn answer_r urc)) = 500)
   \<and> (answer_n (main_create_node_query (nc_label nc))
          [(''properties'', DictVal (nc_properties nc))] = Inl e \<longrightarrow>
        fst (main_create_node str_exn answer_n nc) = Inl (HTTPException 500 (str_exn e)))
   \<and> (answer_n (router_create_node_query (nc_label nc))
          [(''props'', DictVal (nc_properties nc))] = Inl e \<longrightarrow>
        fst (router_create_node str_exn answer_n nc) = Inl (HTTPException 500 (str_exn e)))
   \<and> (answer_r (create_relationship_query (rc_type rc))
          [(''from_id'', IntVal (rc_from_id rc)), (''to_id'', IntVal (rc_to_id rc)),
           (''props'', DictVal (case rc_properties rc of None \<Rightarrow> [] | Some p \<Rightarrow> p))] = Inl e' \<longrightarrow>
        fst (router_create_relationship str_exn answer_r rc) =
          Inl (HTTPException 500 (''Neo4j error: '' @ str_exn e')))
   \<and> (answer_r (main_create_relationship_query (urc_type urc))
          [(''from_id'', StrVal (urc_from_id urc)), (''to_id'', StrVal (urc_to_id urc)),
           (''properties'', (case urc_properties urc of None \<Rightarrow> NoneVal | Some p \<Rightarrow> DictVal p))] = Inl e' \<longrightarrow>
        fst (main_create_relationship str_exn answer_r urc) =
          Inl (HTTPException 500 (str_exn e')))"
proof -
  have a: "issued (snd (main_create_node str_exn answer_n nc)) =
     [(main_create_node_query (nc_label nc), [(''properties'', DictVal (nc_properties nc))])]"
    by (simp add: main_create_node_def session_scope_def session_close_def run_def
        new_session_def except_Exception_def split: sum.splits option.splits)
  have b: "issued (snd (router_create_node str_exn answer_n nc)) =
     [(router_create_node_query (nc_label nc), [(''props'', DictVal (nc_properties nc))])]"
    by (simp add: router_create_node_def session_scope_def session_close_def run_def
        new_session_def except_Exception_def split: sum.splits option.splits)
  have c: "issued (snd (create_relationship answer_r from_id to_id rel_type properties)) =
     [(create_relationship_query rel_type,
       [(''from_id'', IntVal from_id), (''to_id'', IntVal to_id),
        (''props'', DictVal (case properties of None \<Rightarrow> [] | Some p \<Rightarrow> p))])]"
    by (simp add: create_relationship_def session_scope_def session_close_def run_def
        new_session_def split: sum.splits option.splits)
  have d: "issued (snd (main_create_relationship str_exn answer_r urc)) =
     [(main_create_relationship_query (urc_type urc),
       [(''from_id'', StrVal (urc_from_id urc)), (''to_id'', StrVal (urc_to_id urc)),
        (''properties'', (case urc_properties urc of None \<Rightarrow> NoneVal | Some p \<Rightarrow> DictVal p))])]"
    by (simp add: main_create_relationship_def session_scope_def session_close_def run_def
        new_session_def except_Exception_def split: sum.splits option.splits)
  have e: "http_status (fst (main_create_node str_exn answer_n nc)) = 200
        \<or> http_status (fst (main_create_node str_exn answer_n nc)) = 500"
    by (simp add: main_create_node_def session_scope_def run_def except_Exception_def
        http_status_def split: sum.splits option.splits)
  have f: "http_status (fst (router_create_node str_exn answer_n nc)) = 200
        \<or> http_status (fst (router_create_node str_exn answer_n nc)) = 500"
    by (simp add: router_create_node_def session_scope_def run_def except_Exception_def
        http_status_def split: sum.splits option.splits)
  have g: "http_status (fst (router_create_relationship str_exn answer_r rc)) = 200
        \<or> http_status (fst (router_create_relationship str_exn answer_r rc)) = 500"
    by (simp add: router_create_relationship_def create_relationship_def session_scope_def
        run_def except_Exception_def http_status_def Let_def split: sum.splits option.splits)
  have h: "http_status (fst (main_create_relationship str_exn answer_r urc)) = 200
        \<or> http_status (fst (main_create_relationship str_exn answer_r urc)) = 500"
    by (simp add: main_create_relationship_def session_scope_def run_def except_Exception_def
        http_status_def split: sum.splits option.splits)
  have i: "answer_n (main_create_node_query (nc_label nc))
          [(''properties'', DictVal (nc_properties nc))] = Inl e \<longrightarrow>
        fst (main_create_node str_exn answer_n nc) = Inl (HTTPException 500 (str_exn e))"
    by (simp add: main_create_node_def session_scope_def run_def except_Exception_def)
  have j: "answer_n (router_create_node_query (nc_label nc))
          [(''props'', DictVal (nc_properties nc))] = Inl e \<longrightarrow>
        fst (router_create_node str_exn answer_n nc) = Inl (HTTPException 500 (str_exn e))"
    by (simp add: router_create_node_def session_scope_def run_def except_Exception_def)
  have k: "answer_r (create_relationship_query (rc_type rc))
          [(''from_id'', IntVal (rc_from_id rc)), (''to_id'', IntVal (rc_to_id rc)),
           (''props'', DictVal (case rc_properties rc of None \<Rightarrow> [] | Some p \<Rightarrow> p))] = Inl e' \<longrightarrow>
        fst (router_create_relationship str_exn answer_r rc) =
          Inl (HTTPException 500 (''Neo4j error: '' @ str_exn e'))"
    by (simp add: router_create_relationship_def create_relationship_def session_scope_def
        run_def except_Exception_def Let_def)
  have l: "answer_r (main_create_relationship_query (urc_type urc))
          [(''from_id'', StrVal (urc_from_id urc)), (''to_id'', StrVal (urc_to_id urc)),
           (''properties'', (case urc_properties urc of None \<Rightarrow> NoneVal | Some p \<Rightarrow> DictVal p))] = Inl e' \<longrightarrow>
        fst (main_create_relationship str_exn answer_r urc) =
          Inl (HTTPException 500 (str_exn e'))"
    by (simp add: main_create_relationship_def session_scope_def run_def except_Exception_def)
  from a b c d e f g h i j k l show ?thesis by blast
qed

text \<open>
  A store that rejects the query text: the label \<^verbatim>\<open>A`B\<close> and the type \<^verbatim>\<open>HAS`GOAL\<close> reach
  it unchecked, and each endpoint answers 500 with the store's message.
\<close>

theorem create_operations_send_unvalidated_witness:
  "fst (main_create_node (\<lambda>e. ''Invalid input'') (\<lambda>q ps. Inl (Neo4jError ''Invalid input''))
          \<lparr>nc_label = ''A`B'', nc_properties = []\<rparr>) =
     Inl (HTTPException 500 ''Invalid input'')
   \<and> fst (router_create_node (\<lambda>e. ''Invalid input'') (\<lambda>q ps. Inl (Neo4jError ''Invalid input''))
          \<lparr>nc_label = ''A`B'', nc_properties = []\<rparr>) =
     Inl (HTTPException 500 ''Invalid input'')
   \<and> fst (router_create_relationship (\<lambda>e. ''Invalid input'')
          (\<lambda>q ps. Inl (Neo4jError ''Invalid input''))
          \<lparr>rc_from_id = 1, rc_to_id = 2, rc_type = ''HAS`GOAL'', rc_properties = None\<rparr>) =
     Inl (HTTPException 500 ''Neo4j error: Invalid input'')
   \<and> fst (main_create_relationship (\<lambda>e. ''Invalid input'')
          (\<lambda>q ps. Inl (Neo4jError ''Invalid input''))
          \<lparr>urc_from_id = ''a'', urc_to_id = ''b'', urc_type = ''HAS`GOAL'', urc_properties = None\<rparr>) =
     Inl (HTTPException 500 ''Invalid input'')
   \<and> issued (snd (main_create_node (\<lambda>e. ''Invalid input'')
          (\<lambda>q ps. Inl (Neo4jError ''Invalid input''))
          \<lparr>nc_label = ''A`B'', nc_properties = []\<rparr>)) =
     [(main_create_node_query ''A`B'', [(''properties'', DictVal [])])]"
  using create_operations_send_unvalidated
    [where str_exn = "\<lambda>e. ''Invalid input''"
       and answer_n = "\<lambda>q ps. Inl (Neo4jError ''Invalid input'')"
       and answer_r = "\<lambda>q ps. Inl (Neo4jError ''Invalid input'')"
       and e = "Neo4jError ''Invalid input''" and e' = "Neo4jError ''Invalid input''"
       and nc = "\<lparr>nc_label = ''A`B'', nc_properties = []\<rparr>"
       and rc = "\<lparr>rc_from_id = 1, rc_to_id = 2, rc_type = ''HAS`GOAL'', rc_properties = None\<rparr>"
       and urc = "\<lparr>urc_from_id = ''a'', urc_to_id = ''b'', urc_type = ''HAS`GOAL'', urc_properties = None\<rparr>"]
  by simp

text \<open>
  C1, as the claim states it, fails. The label \<^verbatim>\<open>A:B\<close> and the relationship type
  \<^verbatim>\<open>HAS GOAL\<close> are not identifiers, yet each is sent to the store inside the query text
  and the operation returns what the store created.
\<close>

theorem create_unsafe_identifier_counterexample:
  "\<not> spec_safe_identifier ''A:B''
   \<and> main_create_node (\<lambda>e. ''error'')
        (\<lambda>q ps. Inr [\<lparr>node_id = 7, node_labels = [''A'', ''B''], node_props = []\<rparr>])
        \<lparr>nc_label = ''A:B'', nc_properties = []\<rparr> =
       (Inr (DictVal [(''node'', DictVal [(''id'', IntVal 7), (''properties'', DictVal [])])]),
        \<lparr>issued = [(''\<newline>                CREATE (n:A:B $properties)\<newline>                RETURN n\<newline>                '',
                    [(''properties'', DictVal [])])],
         closed = True\<rparr>)
   \<and> \<not> spec_safe_identifier ''HAS GOAL''
   \<and> issued (snd (create_relationship
        (\<lambda>q ps. Inr [\<lparr>relationship_id = 9, relationship_type = ''HAS GOAL'',
                       start_node = \<lparr>node_id = 1, node_labels = [], node_props = []\<rparr>,
                       end_node = \<lparr>node_id = 2, node_labels = [], node_props = []\<rparr>,
                       relationship_props = []\<rparr>])
        1 2 ''HAS GOAL'' None)) =
       [(create_relationship_query ''HAS GOAL'',
         [(''from_id'', IntVal 1), (''to_id'', IntVal 2), (''props'', DictVal [])])]
   \<and> fst (create_relationship
        (\<lambda>q ps. Inr [\<lparr>relationship_id = 9, relationship_type = ''HAS GOAL'',
                       start_node = \<lparr>node_id = 1, node_labels = [], node_props = []\<rparr>,
                       end_node = \<lparr>node_id = 2, node_labels = [], node_props = []\<rparr>,
                       relationship_props = []\<rparr>])
        1 2 ''HAS GOAL'' None) =
       Inr (Some (DictVal [(''id'', IntVal 9), (''type'', StrVal ''HAS GOAL''),
                           (''start_node'', IntVal 1), (''end_node'', IntVal 2),
                           (''properties'', DictVal [])]))"
  by (simp add: spec_safe_identifier_def main_create_node_def
      main_create_node_query_def create_relationship_def created_relationship_dict_def
      session_scope_def session_close_def new_session_def run_def single_def
      except_Exception_def)

end
